theory Spec2Isabelle
  imports Main
begin

section \<open>The auth service of the mobile client (services/authService)\<close>

text \<open>
  The service talks to a REST API through \<^verbatim>\<open>fetch\<close> and keeps two tokens in
  \<^verbatim>\<open>AsyncStorage\<close>. The model makes both collaborators explicit:
  \<^item> the storage is a map from keys to strings, passed in and returned;
  \<^item> the network is the outcome of the one \<^verbatim>\<open>fetch\<close> call an operation can make
    (no operation makes more than one), given as an argument, and every call of
    \<^verbatim>\<open>fetch\<close> is logged with the options it received;
  \<^item> a thrown value is the left summand of the result.
  The abort timer of \<^verbatim>\<open>makeRequest\<close> is the outcome "fetch rejects with an AbortError";
  how long that takes is outside the model. The base URL is a constant prefix of every
  URL and is left out: a request is logged under its endpoint.
\<close>

subsection \<open>Wire types (types/auth)\<close>

text \<open>Fields in the order of the interface: type, value, msg, path, location.\<close>

datatype ValidationError = ValidationError string string string string string

text \<open>Fields: id, name, email, role, isEmailVerified, lastLogin, createdAt.\<close>

datatype User = User string string string string bool string string

datatype AuthTokens = AuthTokens
  (accessToken: string)
  (refreshToken: string)
  (accessTokenExpiresIn: string)
  (refreshTokenExpiresIn: string)

datatype AuthResponse = AuthResponse (user: User) (tokens: AuthTokens)

text \<open>The payload of the refresh endpoint, \<^verbatim>\<open>{ accessToken: string }\<close>.\<close>

datatype RefreshResponse = RefreshResponse (accessToken: string)

text \<open>
  The envelope \<^verbatim>\<open>ApiResponse<T>\<close>. \<^verbatim>\<open>data\<close> and \<^verbatim>\<open>errors\<close> are optional
  properties: \<open>None\<close> is \<^verbatim>\<open>undefined\<close>.
\<close>

datatype 'a ApiResponse = ApiResponse
  (status: string)
  (message: string)
  (data: "'a option")
  (errors: "ValidationError list option")

text \<open>Request payloads. Fields: email, password; name, email, password.\<close>

datatype SignInRequest = SignInRequest string string

datatype SignUpRequest = SignUpRequest string string string

text \<open>
  Modelled from the spec: the interfaces \<^verbatim>\<open>UpdateProfileRequest\<close> and
  \<^verbatim>\<open>ChangePasswordRequest\<close> are imported by the service but not declared in the
  sources at hand; the endpoint table gives a partial \<^verbatim>\<open>{name?}\<close> and
  \<^verbatim>\<open>{currentPassword, newPassword}\<close>.
\<close>

datatype UpdateProfileRequest = UpdateProfileRequest "string option"

datatype ChangePasswordRequest = ChangePasswordRequest string string

subsection \<open>Errors\<close>

text \<open>\<^verbatim>\<open>class ApiError extends Error\<close> with its constructor arguments.\<close>

datatype ApiError = ApiError
  (message: string)
  (status: nat)
  (errors: "ValidationError list option")

text \<open>
  The built-in errors that reach the handlers: the \<^verbatim>\<open>AbortError\<close> of an aborted
  fetch, a \<^verbatim>\<open>TypeError\<close> (a failed fetch, a property read on \<^verbatim>\<open>null\<close> or
  \<^verbatim>\<open>undefined\<close>) and the \<^verbatim>\<open>SyntaxError\<close> of a body that is not JSON, each with its
  message.
\<close>

datatype NativeError = AbortError string | TypeError string | SyntaxError string

fun error_name :: "NativeError \<Rightarrow> string" where
  "error_name (AbortError m) = ''AbortError''"
| "error_name (TypeError m) = ''TypeError''"
| "error_name (SyntaxError m) = ''SyntaxError''"

fun error_message :: "NativeError \<Rightarrow> string" where
  "error_message (AbortError m) = m"
| "error_message (TypeError m) = m"
| "error_message (SyntaxError m) = m"

fun instanceof_TypeError :: "NativeError \<Rightarrow> bool" where
  "instanceof_TypeError (TypeError m) = True"
| "instanceof_TypeError e = False"

datatype thrown = Api ApiError | Native NativeError

text \<open>\<^verbatim>\<open>String.prototype.includes\<close>: the second string occurs in the first.\<close>

fun starts_with :: "string \<Rightarrow> string \<Rightarrow> bool" where
  "starts_with s [] = True"
| "starts_with [] (c # cs) = False"
| "starts_with (x # xs) (c # cs) = (x = c \<and> starts_with xs cs)"

fun includes_str :: "string \<Rightarrow> string \<Rightarrow> bool" where
  "includes_str [] sub = (sub = [])"
| "includes_str (x # xs) sub = (starts_with (x # xs) sub \<or> includes_str xs sub)"

subsection \<open>Storage (AsyncStorage)\<close>

type_synonym storage = "string \<rightharpoonup> string"

definition getItem :: "string \<Rightarrow> storage \<Rightarrow> string option" where
  "getItem key s = s key"

definition setItem :: "string \<Rightarrow> string \<Rightarrow> storage \<Rightarrow> storage" where
  "setItem key v s = s(key \<mapsto> v)"

definition removeItem :: "string \<Rightarrow> storage \<Rightarrow> storage" where
  "removeItem key s = s(key := None)"

subsection \<open>Requests and the network\<close>

text \<open>The request bodies, each the \<^verbatim>\<open>JSON.stringify\<close> of a value.\<close>

datatype Body =
    JSON_credentials SignInRequest
  | JSON_userData SignUpRequest
  | JSON_refreshToken string
  | JSON_profileData UpdateProfileRequest
  | JSON_passwordData ChangePasswordRequest

text \<open>
  The properties of \<^verbatim>\<open>RequestInit\<close> the service uses (\<open>http_method\<close> is the
  property \<^verbatim>\<open>method\<close>); \<open>None\<close> is a property the object does not have.
  \<^verbatim>\<open>signal\<close> is true for the abort controller's signal.
\<close>

record RequestInit =
  http_method :: "string option"
  headers :: "(string \<rightharpoonup> string) option"
  body :: "Body option"
  signal :: "bool option"

text \<open>Object spread: \<^verbatim>\<open>{ ...a, ...b }\<close>, the properties of \<open>b\<close> winning.\<close>

definition spread :: "RequestInit \<Rightarrow> RequestInit \<Rightarrow> RequestInit" where
  "spread a b =
    \<lparr>http_method = (case http_method b of Some v \<Rightarrow> Some v | None \<Rightarrow> http_method a),
     headers = (case headers b of Some v \<Rightarrow> Some v | None \<Rightarrow> headers a),
     body = (case body b of Some v \<Rightarrow> Some v | None \<Rightarrow> body a),
     signal = (case signal b of Some v \<Rightarrow> Some v | None \<Rightarrow> signal a)\<rparr>"

text \<open>
  What \<^verbatim>\<open>response.json()\<close> gives: it rejects, or resolves to \<^verbatim>\<open>null\<close>, or to an
  envelope.
\<close>

datatype 'a json_result = Unparseable | JsonNull | Parsed "'a ApiResponse"

text \<open>
  What \<^verbatim>\<open>fetch\<close> does: it rejects with an error, or resolves to a response with a
  status and a body.
\<close>

datatype 'a fetch_outcome = Rejects NativeError | Resolves nat "'a json_result"

text \<open>\<^verbatim>\<open>response.ok\<close>: the status is in the range 200 to 299.\<close>

definition response_ok :: "nat \<Rightarrow> bool" where
  "response_ok st = (200 \<le> st \<and> st \<le> 299)"

type_synonym request = "string \<times> RequestInit"

text \<open>What an operation leaves behind: its result, the storage, the calls of fetch.\<close>

record 'r run =
  ret :: 'r
  store :: storage
  sent :: "request list"

subsection \<open>makeRequest\<close>

text \<open>The second argument of \<^verbatim>\<open>fetch\<close>.\<close>

definition fetch_init :: "RequestInit \<Rightarrow> RequestInit" where
  "fetch_init options =
     spread
       \<lparr>http_method = None,
        headers = Some ([''Content-Type'' \<mapsto> ''application/json'']
                        ++ (case headers options of Some h \<Rightarrow> h | None \<Rightarrow> Map.empty)),
        body = None,
        signal = Some True\<rparr>
       options"

text \<open>The \<^verbatim>\<open>try\<close> block, after \<^verbatim>\<open>fetch\<close> has settled.\<close>

definition makeRequest_try :: "'a fetch_outcome \<Rightarrow> thrown + 'a option" where
  "makeRequest_try outcome =
     (case outcome of
        Rejects e \<Rightarrow> Inl (Native e)
      | Resolves st b \<Rightarrow>
          (case b of
             Unparseable \<Rightarrow> Inl (Native (SyntaxError ''JSON Parse error''))
           | JsonNull \<Rightarrow> Inl (Native (TypeError ''Cannot read property of null''))
           | Parsed d \<Rightarrow>
               if \<not> response_ok st then
                 Inl (Api (ApiError
                   (if ApiResponse.message d = [] then ''An error occurred''
                    else ApiResponse.message d)
                   st
                   (ApiResponse.errors d)))
               else if ApiResponse.status d = ''error'' then
                 Inl (Api (ApiError (ApiResponse.message d) st (ApiResponse.errors d)))
               else Inr (ApiResponse.data d)))"

text \<open>The \<^verbatim>\<open>catch\<close> block: what is thrown to the caller.\<close>

definition makeRequest_catch :: "thrown \<Rightarrow> ApiError" where
  "makeRequest_catch error =
     (case error of
        Api e \<Rightarrow> e
      | Native n \<Rightarrow>
          if error_name n = ''AbortError'' then ApiError ''Request timeout'' 408 None
          else if instanceof_TypeError n \<and> includes_str (error_message n) ''Failed to fetch''
          then ApiError ''Network error. Please check your connection.'' 0 None
          else ApiError ''An unexpected error occurred'' 500 None)"

definition makeRequest ::
  "'a fetch_outcome \<Rightarrow> string \<Rightarrow> RequestInit \<Rightarrow> (thrown + 'a option) \<times> request list" where
  "makeRequest outcome endpoint options =
     (case makeRequest_try outcome of
        Inl error \<Rightarrow> (Inl (Api (makeRequest_catch error)), [(endpoint, fetch_init options)])
      | Inr v \<Rightarrow> (Inr v, [(endpoint, fetch_init options)]))"

subsection \<open>Token storage\<close>

definition storeTokens :: "AuthTokens \<Rightarrow> storage \<Rightarrow> storage" where
  "storeTokens t s =
     setItem ''refreshToken'' (AuthTokens.refreshToken t)
       (setItem ''accessToken'' (AuthTokens.accessToken t) s)"

definition clearTokens :: "storage \<Rightarrow> storage" where
  "clearTokens s = removeItem ''refreshToken'' (removeItem ''accessToken'' s)"

text \<open>An access token that is \<^verbatim>\<open>null\<close> or empty is falsy.\<close>

definition getAuthHeaders :: "storage \<Rightarrow> thrown + (string \<rightharpoonup> string)" where
  "getAuthHeaders s =
     (case getItem ''accessToken'' s of
        None \<Rightarrow> Inl (Api (ApiError ''No access token found'' 401 None))
      | Some t \<Rightarrow>
          if t = [] then Inl (Api (ApiError ''No access token found'' 401 None))
          else Inr [''Authorization'' \<mapsto> ''Bearer '' @ t])"

subsection \<open>The operations\<close>

text \<open>
  Reading \<^verbatim>\<open>response.tokens\<close> when the envelope had no \<^verbatim>\<open>data\<close> throws a
  \<^verbatim>\<open>TypeError\<close>.
\<close>

definition undefined_read :: thrown where
  "undefined_read = Native (TypeError ''Cannot read property of undefined'')"

definition signIn ::
  "AuthResponse fetch_outcome \<Rightarrow> SignInRequest \<Rightarrow> storage \<Rightarrow> (thrown + AuthResponse) run" where
  "signIn outcome credentials s =
     (case makeRequest outcome ''/auth/signin''
             \<lparr>http_method = Some ''POST'', headers = None,
              body = Some (JSON_credentials credentials), signal = None\<rparr> of
        (Inl e, rs) \<Rightarrow> \<lparr>ret = Inl e, store = s, sent = rs\<rparr>
      | (Inr None, rs) \<Rightarrow> \<lparr>ret = Inl undefined_read, store = s, sent = rs\<rparr>
      | (Inr (Some response), rs) \<Rightarrow>
          \<lparr>ret = Inr response, store = storeTokens (tokens response) s, sent = rs\<rparr>)"

definition signUp ::
  "AuthResponse fetch_outcome \<Rightarrow> SignUpRequest \<Rightarrow> storage \<Rightarrow> (thrown + AuthResponse) run" where
  "signUp outcome userData s =
     (case makeRequest outcome ''/auth/signup''
             \<lparr>http_method = Some ''POST'', headers = None,
              body = Some (JSON_userData userData), signal = None\<rparr> of
        (Inl e, rs) \<Rightarrow> \<lparr>ret = Inl e, store = s, sent = rs\<rparr>
      | (Inr None, rs) \<Rightarrow> \<lparr>ret = Inl undefined_read, store = s, sent = rs\<rparr>
      | (Inr (Some response), rs) \<Rightarrow>
          \<lparr>ret = Inr response, store = storeTokens (tokens response) s, sent = rs\<rparr>)"

text \<open>
  The \<^verbatim>\<open>try\<close> block of \<^verbatim>\<open>signOut\<close>. The options object is built before
  \<^verbatim>\<open>makeRequest\<close> is called, so a throwing \<^verbatim>\<open>getAuthHeaders\<close> leaves no request.
\<close>

definition signOut_try :: "'a fetch_outcome \<Rightarrow> storage \<Rightarrow> (thrown + unit) \<times> request list" where
  "signOut_try outcome s =
     (case getItem ''refreshToken'' s of
        None \<Rightarrow> (Inr (), [])
      | Some token \<Rightarrow>
          if token = [] then (Inr (), [])
          else
            (case getAuthHeaders s of
               Inl e \<Rightarrow> (Inl e, [])
             | Inr h \<Rightarrow>
                 (case makeRequest outcome ''/auth/signout''
                         \<lparr>http_method = Some ''POST'', headers = Some h,
                          body = Some (JSON_refreshToken token), signal = None\<rparr> of
                    (Inl e, rs) \<Rightarrow> (Inl e, rs)
                  | (Inr v, rs) \<Rightarrow> (Inr (), rs))))"

text \<open>\<^verbatim>\<open>catch\<close> logs the error and goes on; \<^verbatim>\<open>finally\<close> clears the tokens.\<close>

definition signOut :: "'a fetch_outcome \<Rightarrow> storage \<Rightarrow> (thrown + unit) run" where
  "signOut outcome s =
     (case signOut_try outcome s of
        (Inl error, rs) \<Rightarrow> \<lparr>ret = Inr (), store = clearTokens s, sent = rs\<rparr>
      | (Inr u, rs) \<Rightarrow> \<lparr>ret = Inr u, store = clearTokens s, sent = rs\<rparr>)"

text \<open>The \<^verbatim>\<open>try\<close> block of \<^verbatim>\<open>refreshToken\<close>; the result \<open>None\<close> is \<^verbatim>\<open>null\<close>.\<close>

definition refreshToken_try ::
  "RefreshResponse fetch_outcome \<Rightarrow> storage \<Rightarrow> (thrown + string option) run" where
  "refreshToken_try outcome s =
     (case getItem ''refreshToken'' s of
        None \<Rightarrow> \<lparr>ret = Inr None, store = s, sent = []\<rparr>
      | Some token \<Rightarrow>
          if token = [] then \<lparr>ret = Inr None, store = s, sent = []\<rparr>
          else
            (case makeRequest outcome ''/auth/refresh-token''
                    \<lparr>http_method = Some ''POST'', headers = None,
                     body = Some (JSON_refreshToken token), signal = None\<rparr> of
               (Inl e, rs) \<Rightarrow> \<lparr>ret = Inl e, store = s, sent = rs\<rparr>
             | (Inr None, rs) \<Rightarrow> \<lparr>ret = Inl undefined_read, store = s, sent = rs\<rparr>
             | (Inr (Some response), rs) \<Rightarrow>
                 \<lparr>ret = Inr (Some (RefreshResponse.accessToken response)),
                  store = setItem ''accessToken'' (RefreshResponse.accessToken response) s,
                  sent = rs\<rparr>))"

definition refreshToken ::
  "RefreshResponse fetch_outcome \<Rightarrow> storage \<Rightarrow> (thrown + string option) run" where
  "refreshToken outcome s =
     (let r = refreshToken_try outcome s in
      case ret r of
        Inl error \<Rightarrow> \<lparr>ret = Inr None, store = clearTokens (store r), sent = sent r\<rparr>
      | Inr v \<Rightarrow> r)"

definition getCurrentUser :: "'a fetch_outcome \<Rightarrow> storage \<Rightarrow> (thrown + 'a option) run" where
  "getCurrentUser outcome s =
     (case getAuthHeaders s of
        Inl e \<Rightarrow> \<lparr>ret = Inl e, store = s, sent = []\<rparr>
      | Inr h \<Rightarrow>
          (case makeRequest outcome ''/auth/me''
                  \<lparr>http_method = Some ''GET'', headers = Some h, body = None, signal = None\<rparr> of
             (r, rs) \<Rightarrow> \<lparr>ret = r, store = s, sent = rs\<rparr>))"

definition updateProfile ::
  "'a fetch_outcome \<Rightarrow> UpdateProfileRequest \<Rightarrow> storage \<Rightarrow> (thrown + 'a option) run" where
  "updateProfile outcome profileData s =
     (case getAuthHeaders s of
        Inl e \<Rightarrow> \<lparr>ret = Inl e, store = s, sent = []\<rparr>
      | Inr authHeaders \<Rightarrow>
          (case makeRequest outcome ''/auth/profile''
                  \<lparr>http_method = Some ''PUT'',
                   headers = Some ([''Content-Type'' \<mapsto> ''application/json''] ++ authHeaders),
                   body = Some (JSON_profileData profileData), signal = None\<rparr> of
             (r, rs) \<Rightarrow> \<lparr>ret = r, store = s, sent = rs\<rparr>))"

definition changePassword ::
  "'a fetch_outcome \<Rightarrow> ChangePasswordRequest \<Rightarrow> storage \<Rightarrow> (thrown + 'a option) run" where
  "changePassword outcome passwordData s =
     (case getAuthHeaders s of
        Inl e \<Rightarrow> \<lparr>ret = Inl e, store = s, sent = []\<rparr>
      | Inr authHeaders \<Rightarrow>
          (case makeRequest outcome ''/auth/change-password''
                  \<lparr>http_method = Some ''PUT'',
                   headers = Some ([''Content-Type'' \<mapsto> ''application/json''] ++ authHeaders),
                   body = Some (JSON_passwordData passwordData), signal = None\<rparr> of
             (r, rs) \<Rightarrow> \<lparr>ret = r, store = s, sent = rs\<rparr>))"

text \<open>
  \<^verbatim>\<open>a && b\<close> on two stored values is \<open>a\<close> when \<open>a\<close> is falsy and \<open>b\<close> otherwise;
  \<^verbatim>\<open>!!\<close> turns the result into its truthiness.
\<close>

definition truthy :: "string option \<Rightarrow> bool" where
  "truthy v = (case v of None \<Rightarrow> False | Some t \<Rightarrow> t \<noteq> [])"

definition js_and :: "string option \<Rightarrow> string option \<Rightarrow> string option" where
  "js_and a b = (if truthy a then b else a)"

definition isAuthenticated :: "storage \<Rightarrow> bool run" where
  "isAuthenticated s =
     (let access = getItem ''accessToken'' s;
          refresh = getItem ''refreshToken'' s
      in \<lparr>ret = truthy (js_and access refresh), store = s, sent = []\<rparr>)"

subsection \<open>Notions used by the properties\<close>

text \<open>The token pair is whole: both keys are present or both are absent.\<close>

definition token_pair_inv :: "storage \<Rightarrow> bool" where
  "token_pair_inv s =
     ((getItem ''accessToken'' s = None) = (getItem ''refreshToken'' s = None))"

text \<open>The value of a header in a logged request, if the request has it.\<close>

definition header_of :: "string \<Rightarrow> request \<Rightarrow> string option" where
  "header_of name r = (case headers (snd r) of None \<Rightarrow> None | Some h \<Rightarrow> h name)"

text \<open>Sample values for the concrete instances below.\<close>

definition example_response :: AuthResponse where
  "example_response =
     AuthResponse
       (User ''u1'' ''Ann'' ''ann@example.org'' ''user'' True ''2024-05-01'' ''2023-01-01'')
       (AuthTokens ''a2'' ''r2'' ''15m'' ''7d'')"

definition signed_in :: storage where
  "signed_in = [''accessToken'' \<mapsto> ''a1'', ''refreshToken'' \<mapsto> ''r1'']"

definition plain_options :: "string \<Rightarrow> RequestInit" where
  "plain_options m = \<lparr>http_method = Some m, headers = None, body = None, signal = None\<rparr>"

section \<open>Properties\<close>

text \<open>
  Two assumptions are built into the model: AsyncStorage itself never fails, and a
  response body that parses carries values of the declared interfaces (with
  \<^verbatim>\<open>data\<close> and \<^verbatim>\<open>errors\<close> optional, as declared).
\<close>

subsection \<open>Auxiliary facts\<close>

lemma makeRequest_sent:
  "snd (makeRequest outcome endpoint options) = [(endpoint, fetch_init options)]"
  by (simp add: makeRequest_def split: sum.splits)

lemma makeRequest_throws_ApiError:
  "fst (makeRequest outcome endpoint options) = Inl e \<Longrightarrow> \<exists>a. e = Api a"
  by (auto simp: makeRequest_def split: sum.splits)


lemma makeRequest_timeout:
  "fst (makeRequest (Rejects (AbortError m)) endpoint options)
     = Inl (Api (ApiError ''Request timeout'' 408 None))"
  by (simp add: makeRequest_def makeRequest_try_def makeRequest_catch_def)

lemma makeRequest_network_error:
  "fst (makeRequest (Rejects (TypeError ''Failed to fetch'')) endpoint options)
     = Inl (Api (ApiError ''Network error. Please check your connection.'' 0 None))"
  by (simp add: makeRequest_def makeRequest_try_def makeRequest_catch_def)

lemma fetch_init_headers:
  "headers (fetch_init options) =
     (case headers options of
        Some h \<Rightarrow> Some h
      | None \<Rightarrow> Some [''Content-Type'' \<mapsto> ''application/json''])"
  by (simp add: fetch_init_def spread_def split: option.splits)

lemma getItem_clearTokens:
  "getItem ''accessToken'' (clearTokens s) = None"
  "getItem ''refreshToken'' (clearTokens s) = None"
  by (simp_all add: getItem_def clearTokens_def removeItem_def)

lemma getItem_storeTokens:
  "getItem ''accessToken'' (storeTokens t s) = Some (AuthTokens.accessToken t)"
  "getItem ''refreshToken'' (storeTokens t s) = Some (AuthTokens.refreshToken t)"
  by (simp_all add: getItem_def storeTokens_def setItem_def)

lemma getItem_signed_in:
  "getItem ''accessToken'' signed_in = Some ''a1''"
  "getItem ''refreshToken'' signed_in = Some ''r1''"
  by (simp_all add: getItem_def signed_in_def)

text \<open>The outcomes on which \<^verbatim>\<open>makeRequest\<close> throws, for any endpoint and options.\<close>

lemma makeRequest_fails_iff:
  "(\<exists>err. fst (makeRequest outcome endpoint options) = Inl err)
     = (case outcome of
          Rejects e \<Rightarrow> True
        | Resolves st b \<Rightarrow>
            (case b of
               Unparseable \<Rightarrow> True
             | JsonNull \<Rightarrow> True
             | Parsed d \<Rightarrow> \<not> response_ok st \<or> ApiResponse.status d = ''error''))"
  by (simp add: makeRequest_def makeRequest_try_def
      split: fetch_outcome.splits json_result.splits)

lemma makeRequest_fails_try:
  "fst (makeRequest outcome endpoint options) = Inl err \<Longrightarrow>
     \<exists>x. makeRequest_try outcome = Inl x"
  by (auto simp: makeRequest_def split: sum.splits)

text \<open>
  Four failed refresh calls: the server rejects with 401, the server rejects inside a
  200 response, the timer aborts the call, the network is down.
\<close>

lemma refresh_call_fails:
  "fst (makeRequest
          (Resolves 401 (Parsed
             (ApiResponse ''error'' ''Invalid refresh token'' (None :: RefreshResponse option)
                None)))
          endpoint options)
     = Inl (Api (ApiError ''Invalid refresh token'' 401 None))"
  "fst (makeRequest
          (Resolves 200 (Parsed
             (ApiResponse ''error'' ''Invalid refresh token'' (None :: RefreshResponse option)
                None)))
          endpoint options)
     = Inl (Api (ApiError ''Invalid refresh token'' 200 None))"
  "fst (makeRequest (Rejects (AbortError []) :: RefreshResponse fetch_outcome)
          endpoint options)
     = Inl (Api (ApiError ''Request timeout'' 408 None))"
  "fst (makeRequest (Rejects (TypeError ''Failed to fetch'') :: RefreshResponse fetch_outcome)
          endpoint options)
     = Inl (Api (ApiError ''Network error. Please check your connection.'' 0 None))"
  by (simp_all add: makeRequest_def makeRequest_try_def makeRequest_catch_def
      response_ok_def)

subsection \<open>Refresh fails closed\<close>

text \<open>
  C1. With a (non-empty) refresh token in storage, \<^verbatim>\<open>refreshToken()\<close> makes its one
  network call. Whenever that call fails, that is, whenever \<^verbatim>\<open>makeRequest\<close> throws,
  for whatever reason (the server rejects with a status outside 2xx or with an error
  envelope inside a 2xx response, the network fails, the timer aborts the call, the
  body cannot be read), \<^verbatim>\<open>refreshToken()\<close> returns \<^verbatim>\<open>null\<close> and afterwards storage
  holds neither an access token nor a refresh token.
\<close>

theorem refreshToken_fail_closed:
  assumes stored: "getItem ''refreshToken'' s = Some token" "token \<noteq> []"
    and failure: "fst (makeRequest outcome ''/auth/refresh-token''
                    \<lparr>http_method = Some ''POST'', headers = None,
                     body = Some (JSON_refreshToken token), signal = None\<rparr>) = Inl err"
  shows "ret (refreshToken outcome s) = Inr None
       \<and> getItem ''accessToken'' (store (refreshToken outcome s)) = None
       \<and> getItem ''refreshToken'' (store (refreshToken outcome s)) = None
       \<and> sent (refreshToken outcome s)
           = [(''/auth/refresh-token'',
               fetch_init \<lparr>http_method = Some ''POST'', headers = None,
                 body = Some (JSON_refreshToken token), signal = None\<rparr>)]"
proof -
  from failure obtain x where "makeRequest_try outcome = Inl x"
    using makeRequest_fails_try by blast
  then have "\<exists>y. ret (refreshToken_try outcome s) = Inl y"
    and "sent (refreshToken_try outcome s)
           = [(''/auth/refresh-token'',
               fetch_init \<lparr>http_method = Some ''POST'', headers = None,
                 body = Some (JSON_refreshToken token), signal = None\<rparr>)]"
    using stored by (simp_all add: refreshToken_try_def makeRequest_def)
  then show ?thesis
    by (auto simp: refreshToken_def Let_def getItem_clearTokens)
qed

text \<open>
  On a signed-in device, each of the four failed calls above: a 401, an error envelope
  in a 200 response, a timeout and a network failure.
\<close>

theorem refreshToken_fail_closed_witness:
  "(let r = refreshToken
          (Resolves 401 (Parsed (ApiResponse ''error'' ''Invalid refresh token'' None None)))
          signed_in
    in ret r = Inr None \<and> getItem ''accessToken'' (store r) = None
       \<and> getItem ''refreshToken'' (store r) = None)
   \<and> (let r = refreshToken
          (Resolves 200 (Parsed (ApiResponse ''error'' ''Invalid refresh token'' None None)))
          signed_in
    in ret r = Inr None \<and> getItem ''accessToken'' (store r) = None
       \<and> getItem ''refreshToken'' (store r) = None)
   \<and> (let r = refreshToken (Rejects (AbortError [])) signed_in
    in ret r = Inr None \<and> getItem ''accessToken'' (store r) = None
       \<and> getItem ''refreshToken'' (store r) = None)
   \<and> (let r = refreshToken (Rejects (TypeError ''Failed to fetch'')) signed_in
    in ret r = Inr None \<and> getItem ''accessToken'' (store r) = None
       \<and> getItem ''refreshToken'' (store r) = None)"
  using refreshToken_fail_closed [OF getItem_signed_in(2) _ refresh_call_fails(1)]
    refreshToken_fail_closed [OF getItem_signed_in(2) _ refresh_call_fails(2)]
    refreshToken_fail_closed [OF getItem_signed_in(2) _ refresh_call_fails(3)]
    refreshToken_fail_closed [OF getItem_signed_in(2) _ refresh_call_fails(4)]
  by (simp add: Let_def)

subsection \<open>Sign-in and sign-up store the server's tokens\<close>







subsection \<open>The token pair stays whole\<close>

lemma token_pair_inv_clearTokens: "token_pair_inv (clearTokens s)"
  by (simp add: token_pair_inv_def getItem_clearTokens)

lemma token_pair_inv_storeTokens: "token_pair_inv (storeTokens t s)"
  by (simp add: token_pair_inv_def getItem_storeTokens)

lemma token_pair_inv_refresh:
  "getItem ''refreshToken'' s = Some token \<Longrightarrow> token_pair_inv (setItem ''accessToken'' t s)"
  by (simp add: token_pair_inv_def getItem_def setItem_def)

lemma token_pair_inv_signed_in: "token_pair_inv signed_in"
  by (simp add: token_pair_inv_def getItem_signed_in)

lemma signIn_store:
  "store (signIn outcome credentials s) = s
   \<or> (\<exists>t. store (signIn outcome credentials s) = storeTokens t s)"
  by (auto simp: signIn_def split: prod.splits sum.splits option.splits)

lemma signUp_store:
  "store (signUp outcome userData s) = s
   \<or> (\<exists>t. store (signUp outcome userData s) = storeTokens t s)"
  by (auto simp: signUp_def split: prod.splits sum.splits option.splits)

lemma signOut_store: "store (signOut outcome s) = clearTokens s"
  by (simp add: signOut_def split: prod.splits sum.splits)

lemma refreshToken_try_store:
  "store (refreshToken_try outcome s) = s
   \<or> (\<exists>token t. getItem ''refreshToken'' s = Some token
        \<and> store (refreshToken_try outcome s) = setItem ''accessToken'' t s)"
  by (auto simp: refreshToken_try_def split: prod.splits sum.splits option.splits)

lemma refreshToken_store:
  "store (refreshToken outcome s) = s
   \<or> store (refreshToken outcome s) = clearTokens (store (refreshToken_try outcome s))
   \<or> (\<exists>token t. getItem ''refreshToken'' s = Some token
        \<and> store (refreshToken outcome s) = setItem ''accessToken'' t s)"
  using refreshToken_try_store [of outcome s]
  by (auto simp: refreshToken_def Let_def split: sum.splits)

lemma getCurrentUser_store: "store (getCurrentUser outcome s) = s"
  by (simp add: getCurrentUser_def split: prod.splits sum.splits)

lemma updateProfile_store: "store (updateProfile outcome profileData s) = s"
  by (simp add: updateProfile_def split: prod.splits sum.splits)

lemma changePassword_store: "store (changePassword outcome passwordData s) = s"
  by (simp add: changePassword_def split: prod.splits sum.splits)

lemma isAuthenticated_store: "store (isAuthenticated s) = s"
  by (simp add: isAuthenticated_def)

text \<open>
  C3. Every operation of the service preserves the token-pair invariant: from a storage
  in which the access token and the refresh token are both present or both absent,
  each of \<^verbatim>\<open>signIn\<close>, \<^verbatim>\<open>signUp\<close>, \<^verbatim>\<open>signOut\<close>, \<^verbatim>\<open>refreshToken\<close>,
  \<^verbatim>\<open>getCurrentUser\<close>, \<^verbatim>\<open>updateProfile\<close>, \<^verbatim>\<open>changePassword\<close> and
  \<^verbatim>\<open>isAuthenticated\<close> ends, whatever the network does, in a storage of which the same
  is true.
\<close>

theorem token_pair_inv_preserved:
  assumes inv: "token_pair_inv s"
  shows "token_pair_inv (store (signIn in_outcome credentials s))
       \<and> token_pair_inv (store (signUp up_outcome userData s))
       \<and> token_pair_inv (store (signOut out_outcome s))
       \<and> token_pair_inv (store (refreshToken refresh_outcome s))
       \<and> token_pair_inv (store (getCurrentUser me_outcome s))
       \<and> token_pair_inv (store (updateProfile profile_outcome profileData s))
       \<and> token_pair_inv (store (changePassword password_outcome passwordData s))
       \<and> token_pair_inv (store (isAuthenticated s))"
proof (intro conjI)
  show "token_pair_inv (store (signIn in_outcome credentials s))"
    using inv signIn_store [of in_outcome credentials s]
    by (auto simp: token_pair_inv_storeTokens)
  show "token_pair_inv (store (signUp up_outcome userData s))"
    using inv signUp_store [of up_outcome userData s]
    by (auto simp: token_pair_inv_storeTokens)
  show "token_pair_inv (store (signOut out_outcome s))"
    by (simp add: signOut_store token_pair_inv_clearTokens)
  show "token_pair_inv (store (refreshToken refresh_outcome s))"
    using inv refreshToken_store [of refresh_outcome s]
    by (auto simp: token_pair_inv_clearTokens token_pair_inv_refresh)
  show "token_pair_inv (store (getCurrentUser me_outcome s))"
    using inv by (simp add: getCurrentUser_store)
  show "token_pair_inv (store (updateProfile profile_outcome profileData s))"
    using inv by (simp add: updateProfile_store)
  show "token_pair_inv (store (changePassword password_outcome passwordData s))"
    using inv by (simp add: changePassword_store)
  show "token_pair_inv (store (isAuthenticated s))"
    using inv by (simp add: isAuthenticated_store)
qed

text \<open>
  On a signed-in device: a sign-in that succeeds, a sign-up the server rejects, a
  sign-out that times out, a refresh that succeeds, and three profile calls.
\<close>

theorem token_pair_inv_preserved_witness:
  "token_pair_inv (store (signIn
       (Resolves 200 (Parsed (ApiResponse ''success'' ''ok'' (Some example_response) None)))
       (SignInRequest ''ann@example.org'' ''pw'') signed_in))
   \<and> token_pair_inv (store (signUp
       (Resolves 409 (Parsed (ApiResponse ''error'' ''Email taken'' None None)))
       (SignUpRequest ''Ann'' ''ann@example.org'' ''pw'') signed_in))
   \<and> token_pair_inv (store (signOut (Rejects (AbortError []) :: unit fetch_outcome) signed_in))
   \<and> token_pair_inv (store (refreshToken
       (Resolves 200 (Parsed (ApiResponse ''success'' ''ok'' (Some (RefreshResponse ''a3'')) None)))
       signed_in))
   \<and> token_pair_inv (store (getCurrentUser
       (Rejects (AbortError []) :: User fetch_outcome) signed_in))
   \<and> token_pair_inv (store (updateProfile
       (Rejects (AbortError []) :: User fetch_outcome) (UpdateProfileRequest (Some ''Ann''))
       signed_in))
   \<and> token_pair_inv (store (changePassword
       (Rejects (AbortError []) :: unit fetch_outcome) (ChangePasswordRequest ''old'' ''new'')
       signed_in))
   \<and> token_pair_inv (store (isAuthenticated signed_in))"
  using token_pair_inv_signed_in
  by (rule token_pair_inv_preserved)

subsection \<open>What makeRequest throws\<close>

text \<open>
  C4. A response with a 2xx status whose envelope has status \<^verbatim>\<open>"error"\<close> makes
  \<^verbatim>\<open>makeRequest\<close> throw an \<^verbatim>\<open>ApiError\<close> with the envelope's message, the envelope's
  errors and the status of the response itself (the 2xx value); nothing is returned.
\<close>

theorem makeRequest_error_envelope:
  assumes "response_ok st" and "ApiResponse.status d = ''error''"
  shows "fst (makeRequest (Resolves st (Parsed d)) endpoint options)
           = Inl (Api (ApiError (ApiResponse.message d) st (ApiResponse.errors d)))"
  using assms by (simp add: makeRequest_def makeRequest_try_def makeRequest_catch_def)

theorem makeRequest_error_envelope_witness:
  "fst (makeRequest
          (Resolves 200 (Parsed
             (ApiResponse ''error'' ''Invalid credentials'' (None :: AuthResponse option) None)))
          ''/auth/signin'' (plain_options ''POST''))
     = Inl (Api (ApiError ''Invalid credentials'' 200 None))"
  using makeRequest_error_envelope
    [of 200 "ApiResponse ''error'' ''Invalid credentials'' (None :: AuthResponse option) None"
      "''/auth/signin''" "plain_options ''POST''"]
  by (simp add: response_ok_def)




subsection \<open>Request headers\<close>

text \<open>
  C6. Every request of the service should carry \<^verbatim>\<open>Content-Type: application/json\<close>.
  \<^verbatim>\<open>makeRequest\<close> merges that header with the caller's headers, but then spreads the
  caller's options over the result, and the caller's \<^verbatim>\<open>headers\<close> replace the merged
  ones. On a signed-in device the requests of \<^verbatim>\<open>getCurrentUser\<close> and \<^verbatim>\<open>signOut\<close>
  carry the bearer header and no \<^verbatim>\<open>Content-Type\<close>; \<^verbatim>\<open>updateProfile\<close>, which puts the
  header into its own options, sends it.
\<close>

theorem getCurrentUser_signOut_drop_content_type:
  "map (header_of ''Content-Type'')
     (sent (getCurrentUser (Rejects (AbortError []) :: User fetch_outcome) signed_in))
     = [None]
   \<and> map (header_of ''Authorization'')
     (sent (getCurrentUser (Rejects (AbortError []) :: User fetch_outcome) signed_in))
     = [Some ''Bearer a1'']
   \<and> map (header_of ''Content-Type'')
     (sent (signOut (Rejects (AbortError []) :: unit fetch_outcome) signed_in))
     = [None]
   \<and> map (header_of ''Content-Type'')
     (sent (updateProfile (Rejects (AbortError []) :: User fetch_outcome)
        (UpdateProfileRequest (Some ''Ann'')) signed_in))
     = [Some ''application/json'']"
  by (simp add: getCurrentUser_def signOut_def signOut_try_def updateProfile_def
      getAuthHeaders_def getItem_signed_in makeRequest_def makeRequest_try_def
      fetch_init_def spread_def header_of_def)

subsection \<open>Calls without an access token\<close>

text \<open>
  C7. When storage holds no access token, \<^verbatim>\<open>getCurrentUser()\<close>,
  \<^verbatim>\<open>updateProfile(patch)\<close> and \<^verbatim>\<open>changePassword(data)\<close> each throw an \<^verbatim>\<open>ApiError\<close>
  with status 401, call \<^verbatim>\<open>fetch\<close> not at all and leave storage as it was.
\<close>

theorem no_access_token_unauthorized:
  assumes "getItem ''accessToken'' s = None"
  shows "getCurrentUser me_outcome s
           = \<lparr>ret = Inl (Api (ApiError ''No access token found'' 401 None)),
              store = s, sent = []\<rparr>
       \<and> updateProfile profile_outcome profileData s
           = \<lparr>ret = Inl (Api (ApiError ''No access token found'' 401 None)),
              store = s, sent = []\<rparr>
       \<and> changePassword password_outcome passwordData s
           = \<lparr>ret = Inl (Api (ApiError ''No access token found'' 401 None)),
              store = s, sent = []\<rparr>"
  using assms
  by (simp add: getCurrentUser_def updateProfile_def changePassword_def getAuthHeaders_def)

text \<open>Only a refresh token is left in storage; the server would have answered.\<close>

theorem no_access_token_unauthorized_witness:
  "ret (getCurrentUser
          (Resolves 200 (Parsed (ApiResponse ''success'' ''ok'' (None :: User option) None)))
          [''refreshToken'' \<mapsto> ''r1''])
     = Inl (Api (ApiError ''No access token found'' 401 None))
   \<and> sent (getCurrentUser
          (Resolves 200 (Parsed (ApiResponse ''success'' ''ok'' (None :: User option) None)))
          [''refreshToken'' \<mapsto> ''r1'']) = []"
  using no_access_token_unauthorized
    [of "[''refreshToken'' \<mapsto> ''r1'']"
      "Resolves 200 (Parsed (ApiResponse ''success'' ''ok'' (None :: User option) None))"
      "Resolves 200 (Parsed (ApiResponse ''success'' ''ok'' (None :: User option) None))"
      "UpdateProfileRequest None"
      "Resolves 200 (Parsed (ApiResponse ''success'' ''ok'' (None :: unit option) None))"
      "ChangePasswordRequest ''old'' ''new''"]
  by (simp add: getItem_def)

subsection \<open>Sign-out\<close>

text \<open>
  C8. From every storage and for every outcome of the server call (an answer of any
  status, a network failure, a timeout), \<^verbatim>\<open>signOut()\<close> returns without throwing and
  afterwards storage holds neither the access token nor the refresh token.
\<close>

theorem signOut_unconditional:
  "ret (signOut outcome s) = Inr ()
   \<and> getItem ''accessToken'' (store (signOut outcome s)) = None
   \<and> getItem ''refreshToken'' (store (signOut outcome s)) = None"
  by (simp add: signOut_def getItem_clearTokens split: prod.splits sum.splits)

subsection \<open>The local session check\<close>

text \<open>
  C9. \<^verbatim>\<open>isAuthenticated()\<close> returns true exactly when storage holds an access token
  and a refresh token that are both non-empty; it calls \<^verbatim>\<open>fetch\<close> not at all and
  leaves storage as it was.
\<close>

theorem isAuthenticated_iff:
  "ret (isAuthenticated s)
     = (\<exists>a r. getItem ''accessToken'' s = Some a \<and> a \<noteq> []
           \<and> getItem ''refreshToken'' s = Some r \<and> r \<noteq> [])
   \<and> store (isAuthenticated s) = s
   \<and> sent (isAuthenticated s) = []"
  by (auto simp: isAuthenticated_def Let_def truthy_def js_and_def split: option.splits)

subsection \<open>After a refresh that returns null\<close>

lemma refreshToken_null:
  assumes "ret (refreshToken outcome s) = Inr None"
  shows "(getItem ''refreshToken'' s = None \<or> getItem ''refreshToken'' s = Some [])
           \<and> refreshToken outcome s = \<lparr>ret = Inr None, store = s, sent = []\<rparr>
       \<or> store (refreshToken outcome s) = clearTokens s"
  using assms
  by (auto simp: refreshToken_def refreshToken_try_def Let_def
      split: option.splits sum.splits prod.splits if_splits)

text \<open>
  C10. Whenever \<^verbatim>\<open>refreshToken()\<close> returns \<^verbatim>\<open>null\<close>, \<^verbatim>\<open>isAuthenticated()\<close> is false
  in the storage it leaves. When it returned \<^verbatim>\<open>null\<close> because no refresh token was
  stored, storage is as it was (a stored access token stays) and \<^verbatim>\<open>fetch\<close> was not
  called.
\<close>

theorem refreshToken_null_not_authenticated:
  assumes "ret (refreshToken outcome s) = Inr None"
  shows "ret (isAuthenticated (store (refreshToken outcome s))) = False
       \<and> (getItem ''refreshToken'' s = None \<longrightarrow>
            store (refreshToken outcome s) = s \<and> sent (refreshToken outcome s) = [])"
proof
  show "ret (isAuthenticated (store (refreshToken outcome s))) = False"
    using refreshToken_null [OF assms]
    by (auto simp: isAuthenticated_def Let_def truthy_def js_and_def getItem_clearTokens
        split: option.splits)
  show "getItem ''refreshToken'' s = None \<longrightarrow>
            store (refreshToken outcome s) = s \<and> sent (refreshToken outcome s) = []"
    by (simp add: refreshToken_def refreshToken_try_def)
qed

text \<open>
  A refresh that cannot reach the server on a signed-in device, and a refresh on a
  device that holds an access token only.
\<close>

theorem refreshToken_null_not_authenticated_witness:
  "ret (isAuthenticated (store (refreshToken (Rejects (TypeError ''Failed to fetch''))
          signed_in))) = False
   \<and> ret (isAuthenticated (store (refreshToken (Rejects (TypeError ''Failed to fetch''))
          [''accessToken'' \<mapsto> ''a1'']))) = False
   \<and> getItem ''accessToken'' (store (refreshToken (Rejects (TypeError ''Failed to fetch''))
          [''accessToken'' \<mapsto> ''a1''])) = Some ''a1''"
  using refreshToken_null_not_authenticated
    [of "Rejects (TypeError ''Failed to fetch'')" signed_in]
    refreshToken_null_not_authenticated
    [of "Rejects (TypeError ''Failed to fetch'')" "[''accessToken'' \<mapsto> ''a1'']"]
  by (simp add: refreshToken_def refreshToken_try_def makeRequest_def makeRequest_try_def
      getItem_def signed_in_def)

end
